theory Spec2Isabelle
  imports Main "HOL-Library.Sublist"
begin

section \<open>Shared values\<close>

text \<open>
  A JavaScript exception is a value: \<open>Error\<close> is \<^verbatim>\<open>throw new Error(msg)\<close>,
  \<open>TypeError\<close> is what the platform raises (an invalid URL string).
\<close>

datatype error = Error string | TypeError string

text \<open>
  \<^verbatim>\<open>String.prototype.includes\<close>: \<open>t\<close> occurs in \<open>s\<close> as a contiguous run of
  characters. The empty string occurs in every string.
\<close>

fun String_includes :: "string \<Rightarrow> string \<Rightarrow> bool" where
  "String_includes [] t = (t = [])"
| "String_includes (c # s) t = (prefix t (c # s) \<or> String_includes s t)"

text \<open>\<^verbatim>\<open>String.prototype.startsWith\<close>.\<close>

definition startsWith :: "string \<Rightarrow> string \<Rightarrow> bool" where
  "startsWith s t = prefix t s"

section \<open>The overlay coordinator (app/components/Aside.tsx)\<close>

text \<open>\<^verbatim>\<open>type AsideType = 'search' | 'cart' | 'mobile' | 'closed'\<close>\<close>

datatype AsideType = Search | Cart | Mobile | Closed

text \<open>
  The provider keeps one \<^verbatim>\<open>useState<AsideType>\<close> cell; \<open>setType v\<close> is the state
  setter called with the value \<open>v\<close>, as a function from the cell's old content to
  its new content.
\<close>

definition setType :: "AsideType \<Rightarrow> AsideType \<Rightarrow> AsideType" where
  "setType v old = v"

text \<open>
  \<^verbatim>\<open>type AsideContextValue = {type; open; close}\<close>. The two callbacks are kept as
  the update they make to the provider's cell.
\<close>

record AsideContextValue =
  type :: AsideType
  "open" :: "AsideType \<Rightarrow> AsideType \<Rightarrow> AsideType"
  close :: "AsideType \<Rightarrow> AsideType"

text \<open>\<^verbatim>\<open>useState<AsideType>('closed')\<close>: the cell of a freshly mounted provider.\<close>

definition AsideProvider_initial :: AsideType where
  "AsideProvider_initial = Closed"

text \<open>
  \<^verbatim>\<open>Aside.Provider\<close>: the context value built at a render where the cell holds
  \<open>t\<close>: \<^verbatim>\<open>{type, open: setType, close: () => setType('closed')}\<close>.
\<close>

definition AsideProvider :: "AsideType \<Rightarrow> AsideContextValue" where
  "AsideProvider t = \<lparr>type = t, open = setType, close = setType Closed\<rparr>"

text \<open>
  \<^verbatim>\<open>useContext(AsideContext)\<close>: the value of the nearest enclosing provider (the
  list holds the enclosing providers' values, innermost first), or the default
  \<^verbatim>\<open>null\<close> given to \<^verbatim>\<open>createContext\<close>.
\<close>

definition useContext_AsideContext :: "AsideContextValue list \<Rightarrow> AsideContextValue option" where
  "useContext_AsideContext providers = (case providers of [] \<Rightarrow> None | v # _ \<Rightarrow> Some v)"

text \<open>\<^verbatim>\<open>useAside\<close>: throws when the context value is \<^verbatim>\<open>null\<close>.\<close>

definition useAside :: "AsideContextValue list \<Rightarrow> error + AsideContextValue" where
  "useAside providers =
     (case useContext_AsideContext providers of
        None \<Rightarrow> Inl (Error ''useAside must be used within an AsideProvider'')
      | Some aside \<Rightarrow> Inr aside)"

text \<open>
  The calls a consumer can make on the coordinator, and their effect on the provider's
  cell: each call goes through the context value of the current render.
\<close>

datatype overlay_op = Open AsideType | Close

fun overlay_step :: "AsideType \<Rightarrow> overlay_op \<Rightarrow> AsideType" where
  "overlay_step t (Open mode) = open (AsideProvider t) mode t"
| "overlay_step t Close = close (AsideProvider t) t"

definition overlay_run :: "overlay_op list \<Rightarrow> AsideType" where
  "overlay_run ops = foldl overlay_step AsideProvider_initial ops"

text \<open>\<open>current\<close>: the \<^verbatim>\<open>type\<close> field a consumer reads.\<close>

definition current :: "AsideType \<Rightarrow> AsideType" where
  "current t = type (AsideProvider t)"

subsection \<open>Keyboard listeners (Aside.tsx, SearchForm.tsx, PageLayout)\<close>

text \<open>
  What a \<^verbatim>\<open>keydown\<close> listener does is recorded as the list of calls it makes:
  \<open>call_close\<close> is \<^verbatim>\<open>close()\<close> of the coordinator, the other three act on the
  input of a search form.
\<close>

record KeyboardEvent =
  key :: string
  metaKey :: bool

datatype listener_call = call_close | preventDefault | input_focus | input_blur

text \<open>\<^verbatim>\<open>const expanded = type === activeType\<close> in \<^verbatim>\<open>Aside\<close>.\<close>

definition expanded :: "AsideType \<Rightarrow> AsideType \<Rightarrow> bool" where
  "expanded aside_type activeType = (aside_type = activeType)"

text \<open>The \<^verbatim>\<open>handler\<close> that an expanded \<^verbatim>\<open>Aside\<close> adds to the document.\<close>

definition Aside_handler :: "KeyboardEvent \<Rightarrow> listener_call list" where
  "Aside_handler event = (if key event = ''Escape'' then [call_close] else [])"

text \<open>
  The effect of one mounted \<^verbatim>\<open>Aside\<close> once it has run for the current
  \<open>activeType\<close>: the listeners it holds on the document. The cleanup aborts the
  listener of the previous run, so at most the one of the current run is left.
\<close>

definition Aside_listeners :: "AsideType \<Rightarrow> AsideType \<Rightarrow> (KeyboardEvent \<Rightarrow> listener_call list) list" where
  "Aside_listeners aside_type activeType =
     (if expanded aside_type activeType then [Aside_handler] else [])"

text \<open>\<^verbatim>\<open>handleKeyDown\<close> of \<^verbatim>\<open>useFocusOnCmdK\<close> in SearchForm.tsx.\<close>

definition handleKeyDown :: "KeyboardEvent \<Rightarrow> listener_call list" where
  "handleKeyDown event =
     (if key event = ''k'' \<and> metaKey event then [preventDefault, input_focus] else [])
     @ (if key event = ''Escape'' then [input_blur] else [])"

text \<open>
  The \<^verbatim>\<open>Aside\<close> elements that \<^verbatim>\<open>PageLayout\<close> mounts inside the provider:
  \<^verbatim>\<open>CartAside\<close>, \<^verbatim>\<open>SearchAside\<close> and, when the header has a menu and a primary
  domain URL, \<^verbatim>\<open>MobileMenuAside\<close>.
\<close>

definition PageLayout_asides :: "bool \<Rightarrow> AsideType list" where
  "PageLayout_asides mobile_menu = [Cart, Search] @ (if mobile_menu then [Mobile] else [])"

text \<open>
  The listeners on the document for a page with the given mounted asides, with or
  without a mounted \<^verbatim>\<open>SearchForm\<close>, and the calls that one \<^verbatim>\<open>keydown\<close> event
  makes through them.
\<close>

definition document_listeners ::
    "AsideType list \<Rightarrow> bool \<Rightarrow> AsideType \<Rightarrow> (KeyboardEvent \<Rightarrow> listener_call list) list" where
  "document_listeners asides searchForm activeType =
     concat (map (\<lambda>a. Aside_listeners a activeType) asides)
     @ (if searchForm then [handleKeyDown] else [])"

definition keydown :: "AsideType list \<Rightarrow> bool \<Rightarrow> AsideType \<Rightarrow> KeyboardEvent \<Rightarrow> listener_call list" where
  "keydown asides searchForm activeType event =
     concat (map (\<lambda>h. h event) (document_listeners asides searchForm activeType))"

text \<open>
  What the user can observe of the page here: the open panel and whether the search
  form's input has the focus. \<open>perform\<close> makes the calls of a listener run.
\<close>

record page =
  activeType :: AsideType
  input_focused :: bool

fun perform_call :: "page \<Rightarrow> listener_call \<Rightarrow> page" where
  "perform_call p call_close = p\<lparr>activeType := close (AsideProvider (activeType p)) (activeType p)\<rparr>"
| "perform_call p preventDefault = p"
| "perform_call p input_focus = p\<lparr>input_focused := True\<rparr>"
| "perform_call p input_blur = p\<lparr>input_focused := False\<rparr>"

definition press :: "AsideType list \<Rightarrow> bool \<Rightarrow> KeyboardEvent \<Rightarrow> page \<Rightarrow> page" where
  "press asides searchForm event p =
     foldl perform_call p (keydown asides searchForm (activeType p) event)"

section \<open>Menus (app/components/Header.tsx, app/components/Footer.tsx)\<close>

text \<open>
  A menu as the storefront API returns it. The selectors of an item carry the prefix
  \<open>item_\<close> (\<open>id\<close> and \<open>type\<close> are taken); \<open>item_url\<close> is \<open>None\<close> for a
  \<^verbatim>\<open>null\<close> or missing \<^verbatim>\<open>url\<close>.
\<close>

datatype MenuItem =
  MenuItem (item_id: string) (item_resourceId: "string option") (item_tags: "string list")
    (item_title: string) (item_type: string) (item_url: "string option")
    (item_items: "MenuItem list")

record Menu =
  menu_id :: string
  items :: "MenuItem list"

definition FALLBACK_HEADER_MENU :: Menu where
  "FALLBACK_HEADER_MENU = \<lparr>
     menu_id = ''gid://shopify/Menu/199655587896'',
     items = [
       MenuItem ''gid://shopify/MenuItem/461609500728'' None [] ''Collections'' ''HTTP''
         (Some ''/collections'') [],
       MenuItem ''gid://shopify/MenuItem/461609533496'' None [] ''Blog'' ''HTTP''
         (Some ''/blogs/journal'') [],
       MenuItem ''gid://shopify/MenuItem/461609566264'' None [] ''Policies'' ''HTTP''
         (Some ''/policies'') [],
       MenuItem ''gid://shopify/MenuItem/461609599032'' (Some ''gid://shopify/Page/92591030328'') []
         ''About'' ''PAGE'' (Some ''/pages/about'') []]\<rparr>"

definition FALLBACK_FOOTER_MENU :: Menu where
  "FALLBACK_FOOTER_MENU = \<lparr>
     menu_id = ''gid://shopify/Menu/199655620664'',
     items = [
       MenuItem ''gid://shopify/MenuItem/461633060920''
         (Some ''gid://shopify/ShopPolicy/23358046264'') [] ''Privacy Policy'' ''SHOP_POLICY''
         (Some ''/policies/privacy-policy'') [],
       MenuItem ''gid://shopify/MenuItem/461633093688''
         (Some ''gid://shopify/ShopPolicy/23358013496'') [] ''Refund Policy'' ''SHOP_POLICY''
         (Some ''/policies/refund-policy'') [],
       MenuItem ''gid://shopify/MenuItem/461633126456''
         (Some ''gid://shopify/ShopPolicy/23358111800'') [] ''Shipping Policy'' ''SHOP_POLICY''
         (Some ''/policies/shipping-policy'') [],
       MenuItem ''gid://shopify/MenuItem/461633159224''
         (Some ''gid://shopify/ShopPolicy/23358079032'') [] ''Terms of Service'' ''SHOP_POLICY''
         (Some ''/policies/terms-of-service'') []]\<rparr>"

text \<open>
  The platform's \<^verbatim>\<open>URL\<close> object, reduced to the two parts used below. The
  constructor \<^verbatim>\<open>new URL(s)\<close> belongs to the platform, not to the repository: the
  components take it as the parameter \<open>new_URL\<close>, which throws (\<open>Inl\<close>) or returns
  the parsed URL.
\<close>

record URL =
  host :: string
  pathname :: string

text \<open>
  The expression both \<^verbatim>\<open>HeaderMenu\<close> and \<^verbatim>\<open>FooterMenu\<close> compute for an item
  with a URL:
  \<^verbatim>\<open>item.url.includes('myshopify.com') || item.url.includes(publicStoreDomain) ||
  item.url.includes(primaryDomainUrl) ? new URL(item.url).pathname : item.url\<close>.
  \<open>strips_domain\<close> is its condition.
\<close>

definition strips_domain :: "string \<Rightarrow> string \<Rightarrow> string \<Rightarrow> bool" where
  "strips_domain publicStoreDomain primaryDomainUrl url =
     (String_includes url ''myshopify.com'' \<or> String_includes url publicStoreDomain
      \<or> String_includes url primaryDomainUrl)"

definition menu_item_url ::
    "(string \<Rightarrow> error + URL) \<Rightarrow> string \<Rightarrow> string \<Rightarrow> string \<Rightarrow> error + string" where
  "menu_item_url new_URL publicStoreDomain primaryDomainUrl url =
     (if strips_domain publicStoreDomain primaryDomainUrl url
      then (case new_URL url of Inl e \<Rightarrow> Inl e | Inr u \<Rightarrow> Inr (pathname u))
      else Inr url)"

text \<open>
  What a menu renders for one item: an in-app \<^verbatim>\<open>NavLink\<close> or a plain anchor with
  \<^verbatim>\<open>target="_blank"\<close>, each with its React key (absent for the Home link), its
  target and its text. Styling and click handlers are left out.
\<close>

datatype rendered_link =
    NavLink "string option" string string
  | Anchor_blank "string option" string string

text \<open>\<^verbatim>\<open>items.map\<close> with a callback that can throw: the first throw ends the render.\<close>

fun map_throwing :: "('a \<Rightarrow> error + 'b) \<Rightarrow> 'a list \<Rightarrow> error + 'b list" where
  "map_throwing f [] = Inr []"
| "map_throwing f (x # xs) =
     (case f x of
        Inl e \<Rightarrow> Inl e
      | Inr y \<Rightarrow> (case map_throwing f xs of Inl e \<Rightarrow> Inl e | Inr ys \<Rightarrow> Inr (y # ys)))"

text \<open>\<^verbatim>\<open>!item.url\<close>: the URL is \<^verbatim>\<open>null\<close>, missing or the empty string.\<close>

definition no_url :: "MenuItem \<Rightarrow> bool" where
  "no_url item = (case item_url item of None \<Rightarrow> True | Some u \<Rightarrow> u = [])"

text \<open>The callback of \<^verbatim>\<open>HeaderMenu\<close>; \<open>None\<close> is the skipped item.\<close>

definition HeaderMenu_item ::
    "(string \<Rightarrow> error + URL) \<Rightarrow> string \<Rightarrow> string \<Rightarrow> MenuItem \<Rightarrow> error + rendered_link option" where
  "HeaderMenu_item new_URL publicStoreDomain primaryDomainUrl item =
     (if no_url item then Inr None
      else (case menu_item_url new_URL publicStoreDomain primaryDomainUrl (the (item_url item)) of
              Inl e \<Rightarrow> Inl e
            | Inr url \<Rightarrow> Inr (Some (NavLink (Some (item_id item)) url (item_title item)))))"

datatype Viewport = desktop | mobile

text \<open>
  \<^verbatim>\<open>HeaderMenu\<close>: the children of the \<^verbatim>\<open>nav\<close> element, the Home link first in
  the mobile viewport.
\<close>

definition HeaderMenu ::
    "(string \<Rightarrow> error + URL) \<Rightarrow> Menu option \<Rightarrow> string \<Rightarrow> Viewport \<Rightarrow> string
      \<Rightarrow> error + rendered_link option list" where
  "HeaderMenu new_URL menu primaryDomainUrl viewport publicStoreDomain =
     (case map_throwing (HeaderMenu_item new_URL publicStoreDomain primaryDomainUrl)
             (items (case menu of None \<Rightarrow> FALLBACK_HEADER_MENU | Some m \<Rightarrow> m)) of
        Inl e \<Rightarrow> Inl e
      | Inr links \<Rightarrow>
          Inr ((if viewport = mobile then [Some (NavLink None ''/'' ''Home'')] else []) @ links))"

text \<open>
  \<^verbatim>\<open>HeaderQuery\<close>, with \<^verbatim>\<open>shop.primaryDomain.url\<close> flattened into the shop, and
  the menu that \<^verbatim>\<open>Header\<close> renders from it (desktop viewport). The fields
  \<^verbatim>\<open>menu\<close> of the two queries are \<open>header_menu\<close> and \<open>footer_menu\<close>.
\<close>

record Shop =
  name :: string
  primaryDomain_url :: string

record HeaderQuery =
  shop :: Shop
  header_menu :: "Menu option"

definition Header :: "(string \<Rightarrow> error + URL) \<Rightarrow> HeaderQuery \<Rightarrow> string \<Rightarrow> error + rendered_link option list" where
  "Header new_URL header publicStoreDomain =
     HeaderMenu new_URL (header_menu header) (primaryDomain_url (shop header)) desktop publicStoreDomain"

text \<open>The callback of \<^verbatim>\<open>FooterMenu\<close>, with \<^verbatim>\<open>isExternal = !url.startsWith('/')\<close>.\<close>

definition FooterMenu_item ::
    "(string \<Rightarrow> error + URL) \<Rightarrow> string \<Rightarrow> string \<Rightarrow> MenuItem \<Rightarrow> error + rendered_link option" where
  "FooterMenu_item new_URL publicStoreDomain primaryDomainUrl item =
     (if no_url item then Inr None
      else (case menu_item_url new_URL publicStoreDomain primaryDomainUrl (the (item_url item)) of
              Inl e \<Rightarrow> Inl e
            | Inr url \<Rightarrow>
                (let isExternal = \<not> startsWith url ''/''
                 in Inr (Some (if isExternal
                               then Anchor_blank (Some (item_id item)) url (item_title item)
                               else NavLink (Some (item_id item)) url (item_title item))))))"

definition FooterMenu ::
    "(string \<Rightarrow> error + URL) \<Rightarrow> Menu option \<Rightarrow> string \<Rightarrow> string \<Rightarrow> error + rendered_link option list" where
  "FooterMenu new_URL menu primaryDomainUrl publicStoreDomain =
     map_throwing (FooterMenu_item new_URL publicStoreDomain primaryDomainUrl)
       (items (case menu of None \<Rightarrow> FALLBACK_FOOTER_MENU | Some m \<Rightarrow> m))"

text \<open>
  \<^verbatim>\<open>Footer\<close>, once the footer promise has resolved to a \<^verbatim>\<open>FooterQuery\<close> or to
  \<^verbatim>\<open>null\<close>: the \<^verbatim>\<open>footer\<close> element holds a \<^verbatim>\<open>FooterMenu\<close> only under the guard
  \<^verbatim>\<open>footer?.menu && header.shop.primaryDomain?.url\<close>; \<open>None\<close> is the empty
  \<^verbatim>\<open>footer\<close> element.
\<close>

record FooterQuery =
  footer_menu :: "Menu option"

definition Footer ::
    "(string \<Rightarrow> error + URL) \<Rightarrow> FooterQuery option \<Rightarrow> HeaderQuery \<Rightarrow> string
      \<Rightarrow> error + rendered_link option list option" where
  "Footer new_URL footer header publicStoreDomain =
     (case footer of
        None \<Rightarrow> Inr None
      | Some f \<Rightarrow>
          (case footer_menu f of
             None \<Rightarrow> Inr None
           | Some m \<Rightarrow>
               if primaryDomain_url (shop header) = [] then Inr None
               else (case FooterMenu new_URL (Some m) (primaryDomain_url (shop header)) publicStoreDomain of
                       Inl e \<Rightarrow> Inl e
                     | Inr links \<Rightarrow> Inr (Some links))))"

text \<open>
  A model of the platform's URL parser on the strings of the shape
  \<^verbatim>\<open>http(s)://host/path?query#fragment\<close> with a plain host and a path without dot
  segments or characters that need escaping, used to run the components on concrete
  links; any other string is rejected here the way \<^verbatim>\<open>new URL\<close> rejects a relative
  reference.
\<close>

definition after_scheme :: "string \<Rightarrow> string option" where
  "after_scheme s =
     (if prefix ''https://'' s then Some (drop 8 s)
      else if prefix ''http://'' s then Some (drop 7 s)
      else None)"

definition new_URL_http :: "string \<Rightarrow> error + URL" where
  "new_URL_http s =
     (case after_scheme s of
        None \<Rightarrow> Inl (TypeError ''Invalid URL'')
      | Some r \<Rightarrow>
          (let h = takeWhile (\<lambda>c. c \<notin> set ''/?#'') r;
               p = takeWhile (\<lambda>c. c \<notin> set ''?#'') (dropWhile (\<lambda>c. c \<notin> set ''/?#'') r)
           in if h = [] then Inl (TypeError ''Invalid URL'')
              else Inr \<lparr>host = h, pathname = (if p = [] then ''/'' else p)\<rparr>))"

text \<open>
  The classification in the words of the specification, to compare with
  \<open>strips_domain\<close>: a link is internal if its host contains the commerce-platform
  domain, the public store domain or the primary domain.
\<close>

definition spec_internal :: "string \<Rightarrow> string \<Rightarrow> string \<Rightarrow> string \<Rightarrow> bool" where
  "spec_internal platformDomain publicStoreDomain primaryDomain link_host =
     (String_includes link_host platformDomain \<or> String_includes link_host publicStoreDomain
      \<or> String_includes link_host primaryDomain)"

section \<open>Cart controls (AddToCartButton.tsx, CartLineItem.tsx, CartSummary)\<close>

text \<open>The state of a Remix fetcher.\<close>

datatype fetcher_state = idle | loading | submitting

text \<open>
  The \<^verbatim>\<open>disabled\<close> attribute of the submit button of \<^verbatim>\<open>AddToCartButton\<close>:
  \<^verbatim>\<open>disabled ?? fetcher.state !== 'idle'\<close>, the prop being \<open>None\<close> when it is
  \<^verbatim>\<open>undefined\<close>.
\<close>

definition AddToCartButton_disabled :: "bool option \<Rightarrow> fetcher_state \<Rightarrow> bool" where
  "AddToCartButton_disabled disabled fetcher_state =
     (case disabled of None \<Rightarrow> fetcher_state \<noteq> idle | Some d \<Rightarrow> d)"

text \<open>
  The part of a rendered cart line that \<^verbatim>\<open>CartLineQuantity\<close> reads; the quantity
  is \<open>None\<close> when it is \<^verbatim>\<open>undefined\<close>. Quantities are the integers of the
  storefront API, on which \<^verbatim>\<open>Number(x.toFixed(0))\<close> is the identity.
\<close>

record OptimisticCartLine =
  line_id :: string
  line_quantity :: "int option"
  line_isOptimistic :: bool

definition prevQuantity :: "int \<Rightarrow> int" where
  "prevQuantity quantity = max 0 (quantity - 1)"

definition nextQuantity :: "int \<Rightarrow> int" where
  "nextQuantity quantity = quantity + 1"

text \<open>
  What \<^verbatim>\<open>CartLineQuantity\<close> renders: the quantity shown, and for each of the three
  forms the input it submits and whether its button is disabled.
\<close>

record quantity_controls =
  shown_quantity :: int
  decrease_lines :: "(string \<times> int) list"
  decrease_disabled :: bool
  increase_lines :: "(string \<times> int) list"
  increase_disabled :: bool
  remove_lineIds :: "string list"
  remove_disabled :: bool

definition CartLineQuantity :: "OptimisticCartLine option \<Rightarrow> quantity_controls option" where
  "CartLineQuantity line =
     (case line of
        None \<Rightarrow> None
      | Some l \<Rightarrow>
          (case line_quantity l of
             None \<Rightarrow> None
           | Some quantity \<Rightarrow> Some \<lparr>
               shown_quantity = quantity,
               decrease_lines = [(line_id l, prevQuantity quantity)],
               decrease_disabled = (quantity \<le> 1 \<or> line_isOptimistic l),
               increase_lines = [(line_id l, nextQuantity quantity)],
               increase_disabled = line_isOptimistic l,
               remove_lineIds = [line_id l],
               remove_disabled = line_isOptimistic l\<rparr>))"

text \<open>
  \<^verbatim>\<open>CartGiftCard\<close> keeps the applied codes in the ref
  \<^verbatim>\<open>appliedGiftCardCodes\<close>; each function below is given the ref's content and
  returns the new content. \<^verbatim>\<open>code.replace(/\s/g, '')\<close> drops the white space
  (the ASCII white space here); that \<^verbatim>\<open>saveAppliedCode\<close> also empties the input
  field is left out.
\<close>

definition white_space :: "char \<Rightarrow> bool" where
  "white_space c = (c \<in> set [CHR 0x09, CHR 0x0A, CHR 0x0B, CHR 0x0C, CHR 0x0D, CHR 0x20])"

definition saveAppliedCode :: "string \<Rightarrow> string list \<Rightarrow> string list" where
  "saveAppliedCode code appliedGiftCardCodes =
     (let formattedCode = filter (\<lambda>c. \<not> white_space c) code
      in if formattedCode \<in> set appliedGiftCardCodes then appliedGiftCardCodes
         else appliedGiftCardCodes @ [formattedCode])"

definition removeAppliedCode :: "string list \<Rightarrow> string list" where
  "removeAppliedCode appliedGiftCardCodes = []"

text \<open>
  The handler on the Remove button, \<^verbatim>\<open>onSubmit={() => removeAppliedCode}\<close>: its
  body is the name of the function, so a call of the handler returns that function and
  leaves the ref as it is.
\<close>

datatype handler_result = returns_undefined | returns_function "string list \<Rightarrow> string list"

definition Remove_onSubmit :: "string list \<Rightarrow> handler_result \<times> string list" where
  "Remove_onSubmit appliedGiftCardCodes = (returns_function removeAppliedCode, appliedGiftCardCodes)"

section \<open>The optimistic cart projection\<close>

text \<open>
  \<^verbatim>\<open>CartMain\<close> and \<^verbatim>\<open>CartBanner\<close> obtain the cart they render from
  \<^verbatim>\<open>useOptimisticCart(originalCart)\<close>, a hook of the commerce SDK whose code is
  not among the sources. The definitions of this section, up to \<open>render\<close>, follow
  sections 3 and 4.2 of the specification instead.
\<close>

text \<open>
  Modelled from the spec: for the missing \<^verbatim>\<open>useOptimisticCart\<close>, the cart line of a
  \<^verbatim>\<open>CartSnapshot\<close>,
  \<^verbatim>\<open>{lineId, merchandiseId, quantity, unitPrice, attributes}\<close>.
\<close>

record CartSnapshotLine =
  lineId :: string
  merchandiseId :: string
  quantity :: int
  unitPrice :: string
  attributes :: "(string \<times> string) list"

text \<open>
  Modelled from the spec: for the missing \<^verbatim>\<open>useOptimisticCart\<close>, the confirmed cart
  \<^verbatim>\<open>CartSnapshot\<close>; \<open>cost\<close> holds the subtotal and total amounts.
\<close>

record CartSnapshot =
  lines :: "CartSnapshotLine list"
  discountCodes :: "string list"
  giftCardCodes :: "string list"
  totalQuantity :: int
  cost :: "string \<times> string"

text \<open>
  Modelled from the spec: for the missing \<^verbatim>\<open>useOptimisticCart\<close>, its result
  \<^verbatim>\<open>ProjectedCart\<close>, the snapshot's fields and the flag \<^verbatim>\<open>isOptimistic\<close>.
\<close>

record ProjectedCart = CartSnapshot +
  isOptimistic :: bool

text \<open>Modelled from the spec: for the missing \<^verbatim>\<open>useOptimisticCart\<close>, the tagged variant
  \<^verbatim>\<open>PendingIntent\<close> of the mutations in flight.\<close>

datatype PendingIntent =
    AddLine string int
  | UpdateLine string int
  | RemoveLines "string list"
  | ApplyDiscount "string list"
  | ApplyGiftCard string

text \<open>
  Modelled from the spec: for the missing \<^verbatim>\<open>useOptimisticCart\<close>, the line that
  \<^verbatim>\<open>AddLine{merchandiseId, quantity}\<close> appends. The intent carries the merchandise
  and the quantity only, and the specification names no other source for the line: the
  new line is identified by its merchandise and has no price and no attributes yet.
\<close>

definition new_line :: "string \<Rightarrow> int \<Rightarrow> CartSnapshotLine" where
  "new_line m q = \<lparr>lineId = m, merchandiseId = m, quantity = q, unitPrice = [], attributes = []\<rparr>"

text \<open>
  Modelled from the spec: for the missing \<^verbatim>\<open>useOptimisticCart\<close>, \<^verbatim>\<open>AddLine\<close>
  "appends a new line or increments quantity of an existing line with the same
  merchandise".
\<close>

fun add_line :: "string \<Rightarrow> int \<Rightarrow> CartSnapshotLine list \<Rightarrow> CartSnapshotLine list" where
  "add_line m q [] = [new_line m q]"
| "add_line m q (l # ls) =
     (if merchandiseId l = m then l\<lparr>quantity := quantity l + q\<rparr> # ls
      else l # add_line m q ls)"

text \<open>
  Modelled from the spec: for the missing \<^verbatim>\<open>useOptimisticCart\<close>, \<^verbatim>\<open>UpdateLine\<close>
  "sets quantity; quantity 0 marks line for removal in the projection; never produces
  negative quantity (clamp floor at 0)".
\<close>

definition update_line :: "string \<Rightarrow> int \<Rightarrow> CartSnapshotLine list \<Rightarrow> CartSnapshotLine list" where
  "update_line i q ls =
     (let q' = max 0 q
      in if q' = 0 then filter (\<lambda>l. lineId l \<noteq> i) ls
         else map (\<lambda>l. if lineId l = i then l\<lparr>quantity := q'\<rparr> else l) ls)"

text \<open>
  Modelled from the spec: for the missing \<^verbatim>\<open>useOptimisticCart\<close>, \<^verbatim>\<open>RemoveLines\<close>
  "filters out the named line ids".
\<close>

definition remove_lines :: "string list \<Rightarrow> CartSnapshotLine list \<Rightarrow> CartSnapshotLine list" where
  "remove_lines ids ls = filter (\<lambda>l. lineId l \<notin> set ids) ls"

text \<open>
  Modelled from the spec: for the missing \<^verbatim>\<open>useOptimisticCart\<close>, \<^verbatim>\<open>ApplyDiscount\<close>
  and \<^verbatim>\<open>ApplyGiftCard\<close> "append code to the respective code set, deduplicated,
  case-sensitive".
\<close>

definition append_code :: "string list \<Rightarrow> string \<Rightarrow> string list" where
  "append_code codes c = (if c \<in> set codes then codes else codes @ [c])"

text \<open>
  Modelled from the spec: for the missing \<^verbatim>\<open>useOptimisticCart\<close>, the lines after one
  intent.
\<close>

fun intent_lines :: "PendingIntent \<Rightarrow> CartSnapshotLine list \<Rightarrow> CartSnapshotLine list" where
  "intent_lines (AddLine m q) ls = add_line m q ls"
| "intent_lines (UpdateLine i q) ls = update_line i q ls"
| "intent_lines (RemoveLines ids) ls = remove_lines ids ls"
| "intent_lines (ApplyDiscount cs) ls = ls"
| "intent_lines (ApplyGiftCard c) ls = ls"

text \<open>
  Modelled from the spec: for the missing \<^verbatim>\<open>useOptimisticCart\<close>, the discount codes
  after one intent.
\<close>

fun intent_discountCodes :: "PendingIntent \<Rightarrow> string list \<Rightarrow> string list" where
  "intent_discountCodes (ApplyDiscount cs) codes = foldl append_code codes cs"
| "intent_discountCodes _ codes = codes"

text \<open>
  Modelled from the spec: for the missing \<^verbatim>\<open>useOptimisticCart\<close>, the gift-card codes
  after one intent.
\<close>

fun intent_giftCardCodes :: "PendingIntent \<Rightarrow> string list \<Rightarrow> string list" where
  "intent_giftCardCodes (ApplyGiftCard c) codes = append_code codes c"
| "intent_giftCardCodes _ codes = codes"

text \<open>
  Modelled from the spec: for the missing \<^verbatim>\<open>useOptimisticCart\<close>, applying one pending
  intent, the step of the fold of \<^verbatim>\<open>project\<close>: the intent's change to the lines
  and to the two code lists.
\<close>

definition apply_intent :: "ProjectedCart \<Rightarrow> PendingIntent \<Rightarrow> ProjectedCart" where
  "apply_intent c i =
     c\<lparr>lines := intent_lines i (lines c),
       discountCodes := intent_discountCodes i (discountCodes c),
       giftCardCodes := intent_giftCardCodes i (giftCardCodes c)\<rparr>"

text \<open>
  Modelled from the spec: for the missing \<^verbatim>\<open>useOptimisticCart\<close>, the plain rendering of a
  snapshot: its own fields, nothing being optimistic.
\<close>

definition plain :: "CartSnapshot \<Rightarrow> ProjectedCart" where
  "plain s = \<lparr>lines = lines s, discountCodes = discountCodes s, giftCardCodes = giftCardCodes s,
              totalQuantity = totalQuantity s, cost = cost s, isOptimistic = False\<rparr>"

text \<open>
  Modelled from the spec: for the missing \<^verbatim>\<open>useOptimisticCart\<close>,
  \<^verbatim>\<open>project(snapshot, intents)\<close>, "computed as fold(CartSnapshot, PendingIntents)":
  the intents are applied in submission order, then "recomputed totalQuantity = sum of
  all line quantities after projection", whatever the queue holds, and the projection
  is marked optimistic "while any intent is unresolved", that is while the queue is not
  empty (a resolved intent leaves the queue).
\<close>

definition project :: "CartSnapshot \<Rightarrow> PendingIntent list \<Rightarrow> ProjectedCart" where
  "project snapshot intents =
     (let c = foldl apply_intent (plain snapshot) intents
      in c\<lparr>totalQuantity := sum_list (map quantity (lines c)),
           isOptimistic := (intents \<noteq> [])\<rparr>)"

text \<open>
  Modelled from the spec: for the missing \<^verbatim>\<open>useOptimisticCart\<close>, the client's cart
  store and one render from it. The store holds the confirmed snapshot and the queue of
  pending intents, next to whatever else the client keeps; the projection is "derived,
  not stored, never mutated in place, recomputed from scratch each render", so a render
  returns the projection and the store it was given.
\<close>

record cart_store =
  confirmed :: CartSnapshot
  pending :: "PendingIntent list"



section \<open>Properties of the overlay coordinator\<close>

lemma overlay_step_target:
  "overlay_step t (Open m) = m" "overlay_step t Close = Closed"
  by (simp_all add: AsideProvider_def setType_def)

lemma overlay_run_snoc:
  "overlay_run (ops @ [x]) = overlay_step (overlay_run ops) x"
  by (simp add: overlay_run_def)

lemma overlay_run_last:
  "ops \<noteq> [] \<Longrightarrow> overlay_run ops = (case last ops of Open p \<Rightarrow> p | Close \<Rightarrow> Closed)"
proof (cases ops rule: rev_cases)
  case Nil
  assume "ops \<noteq> []"
  with Nil show ?thesis by simp
next
  case (snoc xs x)
  then show ?thesis
    by (cases x) (simp_all add: overlay_run_snoc overlay_step_target del: overlay_step.simps)
qed

text \<open>
  Claim C1. After any sequence of \<open>open\<close> and \<open>close\<close> calls on a freshly mounted
  provider, \<open>current\<close> is the target of the last call when that call is an \<open>open\<close>,
  and \<open>Closed\<close> when the last call is a \<open>close\<close> or when nothing was called yet;
  and exactly one of the four values \<open>Closed\<close>, \<open>Search\<close>, \<open>Cart\<close>, \<open>Mobile\<close>
  is the active panel.
\<close>

theorem overlay_current_is_last_open:
  "current (overlay_run ops) =
     (case ops of [] \<Rightarrow> Closed | _ \<Rightarrow> (case last ops of Open p \<Rightarrow> p | Close \<Rightarrow> Closed))
   \<and> length (filter (\<lambda>p. current (overlay_run ops) = p) [Closed, Search, Cart, Mobile]) = 1"
proof (rule conjI)
  show "current (overlay_run ops) =
     (case ops of [] \<Rightarrow> Closed | _ \<Rightarrow> (case last ops of Open p \<Rightarrow> p | Close \<Rightarrow> Closed))"
  proof (cases "ops = []")
    case True
    then show ?thesis
      by (simp add: current_def AsideProvider_def overlay_run_def AsideProvider_initial_def)
  next
    case False
    then obtain x xs where "ops = x # xs" by (cases ops) auto
    with overlay_run_last [OF False] show ?thesis
      by (simp add: current_def AsideProvider_def)
  qed
  show "length (filter (\<lambda>p. current (overlay_run ops) = p) [Closed, Search, Cart, Mobile]) = 1"
    by (cases "current (overlay_run ops)") simp_all
qed

text \<open>
  Claim C8. \<open>open\<close> and \<open>close\<close> are idempotent: opening \<open>p\<close> twice is opening it
  once, opening \<open>p\<close> while \<open>p\<close> is active leaves \<open>p\<close> active, closing twice is
  closing once, and closing while nothing is open leaves nothing open. \<open>open\<close>
  checks nothing: whatever value of the enumeration it is given becomes the active one.
\<close>

theorem overlay_open_close_idempotent:
  "overlay_step (overlay_step t (Open p)) (Open p) = overlay_step t (Open p)
   \<and> overlay_step p (Open p) = p
   \<and> overlay_step (overlay_step t Close) Close = overlay_step t Close
   \<and> overlay_step Closed Close = Closed
   \<and> overlay_step t (Open m) = m"
  by (simp add: AsideProvider_def setType_def)

text \<open>
  Claim C5. Outside every provider \<open>useAside\<close> throws an error, and the message of
  the error names the missing provider (\<open>AsideProvider\<close>); inside a provider it
  returns that provider's context value and does not throw.
\<close>

theorem useAside_throws_outside_provider:
  "useAside providers =
     (case providers of
        [] \<Rightarrow> Inl (Error ''useAside must be used within an AsideProvider'')
      | aside # _ \<Rightarrow> Inr aside)
   \<and> String_includes ''useAside must be used within an AsideProvider'' ''AsideProvider''"
  by (simp add: useAside_def useContext_AsideContext_def split: list.split)

lemma Aside_listeners_concat:
  "concat (map (\<lambda>a. Aside_listeners a t) asides)
     = map (\<lambda>a. Aside_handler) (filter (\<lambda>a. a = t) asides)"
  by (induction asides) (simp_all add: Aside_listeners_def expanded_def)

text \<open>
  Claim C6, as the code has it. On the page that \<open>PageLayout\<close> renders, an Escape
  keydown while the search panel is open makes exactly one \<open>close()\<close> call: one
  listener is installed, that of the expanded panel (for any mounted asides, the
  installed listeners are those of the asides whose type is the active one). While no
  panel is open, a keydown makes no \<open>close()\<close> call and leaves the overlay closed;
  without a mounted search form it changes nothing at all, and with a mounted search
  form the one thing Escape does is take the focus from the form's input.
\<close>

theorem escape_calls_close_once_when_expanded:
  "length (filter (\<lambda>c. c = call_close)
      (keydown (PageLayout_asides m) sf Search \<lparr>key = ''Escape'', metaKey = meta\<rparr>)) = 1
   \<and> length (concat (map (\<lambda>a. Aside_listeners a Search) (PageLayout_asides m))) = 1
   \<and> concat (map (\<lambda>a. Aside_listeners a t) asides)
       = map (\<lambda>a. Aside_handler) (filter (\<lambda>a. a = t) asides)
   \<and> filter (\<lambda>c. c = call_close) (keydown (PageLayout_asides m) sf Closed ev) = []
   \<and> activeType (press (PageLayout_asides m) sf ev (p\<lparr>activeType := Closed\<rparr>)) = Closed
   \<and> press (PageLayout_asides m) False ev (p\<lparr>activeType := Closed\<rparr>) = p\<lparr>activeType := Closed\<rparr>
   \<and> keydown (PageLayout_asides m) True Closed \<lparr>key = ''Escape'', metaKey = meta\<rparr> = [input_blur]"
proof -
  have l: "concat (map (\<lambda>a. Aside_listeners a Search) (PageLayout_asides m)) = [Aside_handler]"
    and c: "concat (map (\<lambda>a. Aside_listeners a Closed) (PageLayout_asides m)) = []"
    by (simp_all add: PageLayout_asides_def Aside_listeners_def expanded_def)
  have k: "keydown (PageLayout_asides m) b Closed e = (if b then handleKeyDown e else [])" for b e
    by (simp add: keydown_def document_listeners_def c)
  have 1: "length (filter (\<lambda>c. c = call_close)
      (keydown (PageLayout_asides m) sf Search \<lparr>key = ''Escape'', metaKey = meta\<rparr>)) = 1"
    by (simp add: keydown_def document_listeners_def l Aside_handler_def handleKeyDown_def)
  have 2: "length (concat (map (\<lambda>a. Aside_listeners a Search) (PageLayout_asides m))) = 1"
    by (simp add: l)
  have 4: "filter (\<lambda>c. c = call_close) (keydown (PageLayout_asides m) sf Closed ev) = []"
    by (simp add: k handleKeyDown_def)
  have 5: "activeType (press (PageLayout_asides m) sf ev (p\<lparr>activeType := Closed\<rparr>)) = Closed"
    by (simp add: press_def k handleKeyDown_def)
  have 6: "press (PageLayout_asides m) False ev (p\<lparr>activeType := Closed\<rparr>) = p\<lparr>activeType := Closed\<rparr>"
    by (simp add: press_def k)
  have 7: "keydown (PageLayout_asides m) True Closed \<lparr>key = ''Escape'', metaKey = meta\<rparr> = [input_blur]"
    by (simp add: k handleKeyDown_def)
  from 1 2 Aside_listeners_concat 4 5 6 7 show ?thesis
    by blast
qed

text \<open>
  Claim C6 as stated fails: with no panel open, a search form mounted and its input
  focused, an Escape keydown has an effect that the user can observe, the input loses
  the focus (\<open>handleKeyDown\<close> of \<open>useFocusOnCmdK\<close>).
\<close>

theorem escape_while_closed_blurs_search_input:
  "press (PageLayout_asides True) True \<lparr>key = ''Escape'', metaKey = False\<rparr>
     \<lparr>activeType = Closed, input_focused = True\<rparr>
   \<noteq> \<lparr>activeType = Closed, input_focused = True\<rparr>"
  by (simp add: press_def keydown_def document_listeners_def PageLayout_asides_def
      Aside_listeners_def expanded_def handleKeyDown_def)

section \<open>Properties of the menus\<close>

lemma String_includes_sublist: "String_includes s t \<longleftrightarrow> sublist t s"
  by (induction s) (simp_all add: sublist_Cons_right)

text \<open>
  Claim C2, as the code has it. A menu link is stripped to its path exactly when the
  whole URL string (not its host) contains \<open>myshopify.com\<close>, the public store domain
  or the primary domain URL. A link that is not stripped keeps its URL; the footer
  renders it as a new-tab anchor when the URL does not start with a slash and as an
  in-app link when it does, and the header renders an in-app link in both cases. A
  stripped link is rendered with the path that the URL parser returns, and the render
  throws when the parser rejects the URL.
\<close>

theorem menu_link_stripped_iff_url_contains_domain:
  "(strips_domain psd pdu u \<longleftrightarrow> sublist ''myshopify.com'' u \<or> sublist psd u \<or> sublist pdu u)
   \<and> (item_url item = Some u \<and> u \<noteq> [] \<and> \<not> strips_domain psd pdu u \<longrightarrow>
        HeaderMenu_item new_URL psd pdu item
          = Inr (Some (NavLink (Some (item_id item)) u (item_title item)))
        \<and> FooterMenu_item new_URL psd pdu item
          = Inr (Some (if startsWith u ''/'' then NavLink (Some (item_id item)) u (item_title item)
                       else Anchor_blank (Some (item_id item)) u (item_title item))))
   \<and> (item_url item = Some u \<and> u \<noteq> [] \<and> strips_domain psd pdu u \<and> new_URL u = Inr parsed \<longrightarrow>
        HeaderMenu_item new_URL psd pdu item
          = Inr (Some (NavLink (Some (item_id item)) (pathname parsed) (item_title item)))
        \<and> FooterMenu_item new_URL psd pdu item
          = Inr (Some (if startsWith (pathname parsed) ''/''
                       then NavLink (Some (item_id item)) (pathname parsed) (item_title item)
                       else Anchor_blank (Some (item_id item)) (pathname parsed) (item_title item))))
   \<and> (item_url item = Some u \<and> u \<noteq> [] \<and> strips_domain psd pdu u \<and> new_URL u = Inl e \<longrightarrow>
        HeaderMenu_item new_URL psd pdu item = Inl e
        \<and> FooterMenu_item new_URL psd pdu item = Inl e)"
  by (simp add: strips_domain_def String_includes_sublist HeaderMenu_item_def
      FooterMenu_item_def no_url_def menu_item_url_def)

text \<open>
  The theorem at the two links of the specification's example (primary domain
  \<open>example.myshopify.com\<close>): the shop's own link becomes \<open>/pages/about\<close>, the link
  to another store is unchanged, a new-tab anchor in the footer and an in-app link in
  the header. With an empty public store domain every URL is stripped, and a relative
  one makes the render throw.
\<close>

theorem menu_link_stripped_iff_url_contains_domain_witness:
  "FooterMenu_item new_URL_http ''example.com'' ''https://example.myshopify.com''
      (MenuItem ''1'' None [] ''About'' ''PAGE'' (Some ''https://example.myshopify.com/pages/about'') [])
     = Inr (Some (NavLink (Some ''1'') ''/pages/about'' ''About''))
   \<and> HeaderMenu_item new_URL_http ''example.com'' ''https://example.myshopify.com''
      (MenuItem ''1'' None [] ''About'' ''PAGE'' (Some ''https://example.myshopify.com/pages/about'') [])
     = Inr (Some (NavLink (Some ''1'') ''/pages/about'' ''About''))
   \<and> FooterMenu_item new_URL_http ''example.com'' ''https://example.myshopify.com''
      (MenuItem ''2'' None [] ''Other'' ''HTTP'' (Some ''https://otherstore.com/x'') [])
     = Inr (Some (Anchor_blank (Some ''2'') ''https://otherstore.com/x'' ''Other''))
   \<and> HeaderMenu_item new_URL_http ''example.com'' ''https://example.myshopify.com''
      (MenuItem ''2'' None [] ''Other'' ''HTTP'' (Some ''https://otherstore.com/x'') [])
     = Inr (Some (NavLink (Some ''2'') ''https://otherstore.com/x'' ''Other''))
   \<and> FooterMenu_item new_URL_http [] ''https://example.myshopify.com''
      (MenuItem ''3'' None [] ''Policies'' ''HTTP'' (Some ''/policies'') [])
     = Inl (TypeError ''Invalid URL'')"
proof -
  have a: "strips_domain ''example.com'' ''https://example.myshopify.com''
             ''https://example.myshopify.com/pages/about''"
    and b: "\<not> strips_domain ''example.com'' ''https://example.myshopify.com''
             ''https://otherstore.com/x''"
    and c: "strips_domain [] ''https://example.myshopify.com'' ''/policies''"
    by (simp_all add: strips_domain_def)
  have pa: "new_URL_http ''https://example.myshopify.com/pages/about''
     = Inr \<lparr>host = ''example.myshopify.com'', pathname = ''/pages/about''\<rparr>"
    and pc: "new_URL_http ''/policies'' = Inl (TypeError ''Invalid URL'')"
    by (simp_all add: new_URL_http_def after_scheme_def)
  show ?thesis
    using
      menu_link_stripped_iff_url_contains_domain
        [of "''example.com''" "''https://example.myshopify.com''"
          "''https://example.myshopify.com/pages/about''"
          "MenuItem ''1'' None [] ''About'' ''PAGE'' (Some ''https://example.myshopify.com/pages/about'') []"
          new_URL_http "\<lparr>host = ''example.myshopify.com'', pathname = ''/pages/about''\<rparr>"]
      menu_link_stripped_iff_url_contains_domain
        [of "''example.com''" "''https://example.myshopify.com''"
          "''https://otherstore.com/x''"
          "MenuItem ''2'' None [] ''Other'' ''HTTP'' (Some ''https://otherstore.com/x'') []"
          new_URL_http]
      menu_link_stripped_iff_url_contains_domain
        [of "[]" "''https://example.myshopify.com''" "''/policies''"
          "MenuItem ''3'' None [] ''Policies'' ''HTTP'' (Some ''/policies'') []"
          new_URL_http _ "TypeError ''Invalid URL''"]
      a b c pa pc
    by (simp add: startsWith_def)
qed

text \<open>
  Claim C2 as stated fails. The host of
  \<open>https://otherstore.com/?ref=myshopify.com\<close> is \<open>otherstore.com\<close>, which
  contains none of the three domains, so the claim has the link external: unchanged
  and a new-tab anchor. The code finds \<open>myshopify.com\<close> in the query, strips the
  link to \<open>/\<close> and the footer renders an in-app link. And the header renders a link
  to another store as an in-app link, not as a new-tab anchor.
\<close>

theorem link_to_other_host_stripped:
  "\<not> (strips_domain ''shop.example.com'' ''https://shop.example.com''
          ''https://otherstore.com/?ref=myshopify.com''
        \<longleftrightarrow> spec_internal ''myshopify.com'' ''shop.example.com'' ''shop.example.com'' ''otherstore.com'')
   \<and> new_URL_http ''https://otherstore.com/?ref=myshopify.com''
       = Inr \<lparr>host = ''otherstore.com'', pathname = ''/''\<rparr>
   \<and> FooterMenu_item new_URL_http ''shop.example.com'' ''https://shop.example.com''
        (MenuItem ''2'' None [] ''Other'' ''HTTP'' (Some ''https://otherstore.com/?ref=myshopify.com'') [])
       = Inr (Some (NavLink (Some ''2'') ''/'' ''Other''))
   \<and> HeaderMenu_item new_URL_http ''shop.example.com'' ''https://shop.example.com''
        (MenuItem ''2'' None [] ''Other'' ''HTTP'' (Some ''https://otherstore.com/x'') [])
       = Inr (Some (NavLink (Some ''2'') ''https://otherstore.com/x'' ''Other''))"
  by (simp add: strips_domain_def spec_internal_def new_URL_http_def after_scheme_def
      FooterMenu_item_def HeaderMenu_item_def no_url_def menu_item_url_def startsWith_def)

text \<open>
  The header falls back to its hardcoded menu: without a menu from the query, and with
  domains that do not occur in the four fallback URLs, \<open>Header\<close> renders the four
  fallback items with their ids, URLs and titles.
\<close>

lemma Header_renders_fallback_menu:
  assumes "\<not> strips_domain psd (primaryDomain_url (shop header)) ''/collections''"
    and "\<not> strips_domain psd (primaryDomain_url (shop header)) ''/blogs/journal''"
    and "\<not> strips_domain psd (primaryDomain_url (shop header)) ''/policies''"
    and "\<not> strips_domain psd (primaryDomain_url (shop header)) ''/pages/about''"
    and "header_menu header = None"
  shows "Header new_URL header psd = Inr [
     Some (NavLink (Some ''gid://shopify/MenuItem/461609500728'') ''/collections'' ''Collections''),
     Some (NavLink (Some ''gid://shopify/MenuItem/461609533496'') ''/blogs/journal'' ''Blog''),
     Some (NavLink (Some ''gid://shopify/MenuItem/461609566264'') ''/policies'' ''Policies''),
     Some (NavLink (Some ''gid://shopify/MenuItem/461609599032'') ''/pages/about'' ''About'')]"
  using assms
  by (simp add: Header_def HeaderMenu_def FALLBACK_HEADER_MENU_def HeaderMenu_item_def
      no_url_def menu_item_url_def)

text \<open>
  Claim C7, at the input where the code departs from it. When the footer query has no
  menu (or resolves to null), \<open>Footer\<close> renders an empty footer: the guard
  \<open>footer?.menu\<close> keeps \<open>FooterMenu\<close> from being rendered, so the fallback footer
  menu is never shown. \<open>FooterMenu\<close> itself, were it given no menu, would render the
  four fallback policy links, and \<open>Header\<close> does render its four fallback items.
\<close>

theorem Footer_without_menu_renders_no_fallback:
  "Footer new_URL (Some \<lparr>footer_menu = None\<rparr>) header psd = Inr None
   \<and> Footer new_URL None header psd = Inr None
   \<and> FooterMenu new_URL_http None ''https://shop.example.com'' ''shop.example.com'' = Inr [
     Some (NavLink (Some ''gid://shopify/MenuItem/461633060920'') ''/policies/privacy-policy'' ''Privacy Policy''),
     Some (NavLink (Some ''gid://shopify/MenuItem/461633093688'') ''/policies/refund-policy'' ''Refund Policy''),
     Some (NavLink (Some ''gid://shopify/MenuItem/461633126456'') ''/policies/shipping-policy'' ''Shipping Policy''),
     Some (NavLink (Some ''gid://shopify/MenuItem/461633159224'') ''/policies/terms-of-service'' ''Terms of Service'')]
   \<and> Header new_URL_http
        \<lparr>shop = \<lparr>name = ''Shop'', primaryDomain_url = ''https://shop.example.com''\<rparr>, header_menu = None\<rparr>
        ''shop.example.com'' = Inr [
     Some (NavLink (Some ''gid://shopify/MenuItem/461609500728'') ''/collections'' ''Collections''),
     Some (NavLink (Some ''gid://shopify/MenuItem/461609533496'') ''/blogs/journal'' ''Blog''),
     Some (NavLink (Some ''gid://shopify/MenuItem/461609566264'') ''/policies'' ''Policies''),
     Some (NavLink (Some ''gid://shopify/MenuItem/461609599032'') ''/pages/about'' ''About'')]"
  by (simp add: Footer_def FooterMenu_def FALLBACK_FOOTER_MENU_def FooterMenu_item_def
      Header_def HeaderMenu_def FALLBACK_HEADER_MENU_def HeaderMenu_item_def
      no_url_def menu_item_url_def strips_domain_def startsWith_def)

section \<open>Properties of the cart controls\<close>

text \<open>
  Claim C10. When the \<open>disabled\<close> prop of \<open>AddToCartButton\<close> is undefined, the
  submit button is disabled exactly when the fetcher is not idle; when the prop is
  given, true or false, the button's state is the prop and the fetcher is not looked at.
\<close>

theorem AddToCartButton_disabled_prop_or_fetcher:
  "AddToCartButton_disabled None st = (st \<noteq> idle)
   \<and> AddToCartButton_disabled (Some d) st = d"
  by (simp add: AddToCartButton_disabled_def)

text \<open>
  Claim C9, at the input where the code departs from it. With one applied code stored
  (saved from the input \<open>GIFT 1234\<close>), the handler of the Remove button returns the
  function \<open>removeAppliedCode\<close> without calling it: the stored list is still the
  one code, not the empty list that a call of \<open>removeAppliedCode\<close> gives.
\<close>

theorem Remove_onSubmit_keeps_applied_codes:
  "saveAppliedCode ''GIFT 1234'' [] = [''GIFT1234'']
   \<and> snd (Remove_onSubmit [''GIFT1234'']) = [''GIFT1234'']
   \<and> snd (Remove_onSubmit [''GIFT1234'']) \<noteq> removeAppliedCode [''GIFT1234'']"
  by (simp add: saveAppliedCode_def white_space_def Remove_onSubmit_def removeAppliedCode_def)

section \<open>Properties of the optimistic cart projection\<close>

lemma lines_foldl_apply_intent:
  "lines (foldl apply_intent c intents) = foldl (\<lambda>ls i. intent_lines i ls) (lines c) intents"
  by (induction intents arbitrary: c) (simp_all add: apply_intent_def)

lemma lines_project:
  "lines (project s intents) = foldl (\<lambda>ls i. intent_lines i ls) (lines s) intents"
  by (simp add: project_def Let_def lines_foldl_apply_intent plain_def)

lemma lines_project_snoc:
  "lines (project s (intents @ [i])) = intent_lines i (lines (project s intents))"
  by (simp add: lines_project)

lemma totalQuantity_project:
  "totalQuantity (project s intents) = sum_list (map quantity (lines (project s intents)))"
  by (simp add: project_def Let_def)


lemma update_line_zero: "update_line i 0 ls = filter (\<lambda>l. lineId l \<noteq> i) ls"
  by (simp add: update_line_def)

text \<open>A line left by an update is an old line with another id, or has a positive quantity.\<close>

lemma update_line_cases:
  assumes "l \<in> set (update_line i q ls)"
  shows "(l \<in> set ls \<and> lineId l \<noteq> i) \<or> (0 < quantity l \<and> lineId l = i)"
proof (cases "max 0 q = 0")
  case True
  with assms show ?thesis by (simp add: update_line_def)
next
  case False
  then have q: "max 0 q = q" "0 < q" by simp_all
  from assms have "l \<in> set (map (\<lambda>l. if lineId l = i then l\<lparr>quantity := q\<rparr> else l) ls)"
    unfolding update_line_def Let_def q using q(2) by simp
  then obtain l0 where l0: "l0 \<in> set ls"
    and l: "l = (if lineId l0 = i then l0\<lparr>quantity := q\<rparr> else l0)"
    by auto
  show ?thesis
  proof (cases "lineId l0 = i")
    case True
    with l q show ?thesis by simp
  next
    case False
    with l l0 show ?thesis by simp
  qed
qed

lemma UpdateLine_sequence_lines:
  "\<forall>l \<in> set (lines (project s (map (\<lambda>(i, k). UpdateLine i k) us))).
      0 < quantity l \<or> (l \<in> set (lines s) \<and> lineId l \<notin> fst ` set us)"
proof (induction us rule: rev_induct)
  case Nil
  show ?case by (simp add: lines_project)
next
  case (snoc u us)
  obtain i q where u: "u = (i, q)" by (cases u)
  show ?case
  proof
    fix l
    assume "l \<in> set (lines (project s (map (\<lambda>(i, k). UpdateLine i k) (us @ [u]))))"
    then have "l \<in> set (update_line i q (lines (project s (map (\<lambda>(i, k). UpdateLine i k) us))))"
      by (simp add: u lines_project_snoc)
    from update_line_cases [OF this] snoc.IH u
    show "0 < quantity l \<or> (l \<in> set (lines s) \<and> lineId l \<notin> fst ` set (us @ [u]))"
      by auto
  qed
qed

lemma sum_without_line:
  "distinct (map lineId ls) \<Longrightarrow> l \<in> set ls \<Longrightarrow>
     sum_list (map quantity (filter (\<lambda>x. lineId x \<noteq> lineId l) ls))
       = sum_list (map quantity ls) - quantity l"
proof (induction ls)
  case Nil
  then show ?case by simp
next
  case (Cons a ls)
  show ?case
  proof (cases "a = l")
    case True
    with Cons.prems have "lineId l \<notin> lineId ` set ls" by simp
    then have "\<forall>x \<in> set ls. lineId x \<noteq> lineId l" by (metis imageI)
    then have "filter (\<lambda>x. lineId x \<noteq> lineId l) ls = ls" by simp
    with True show ?thesis by simp
  next
    case False
    with Cons.prems have "l \<in> set ls" "lineId a \<noteq> lineId l" "distinct (map lineId ls)"
      by auto
    with Cons.IH show ?thesis by simp
  qed
qed




text \<open>
  Claim C4. The quantity that the decrease control submits is never negative
  (\<open>prevQuantity\<close> is clamped at 0). After any sequence of \<open>UpdateLine\<close> intents,
  every line of the projection has a positive quantity or is a line of the snapshot
  that no intent names; so with a snapshot without negative quantities no line of the
  projection has a negative quantity. And \<open>UpdateLine\<close> with quantity 0 on a line of
  a projection with unique line ids removes that line and lowers the projection's
  total quantity by exactly that line's quantity: on the snapshot's own lines (no
  intent before it) and after any queue of intents.
\<close>

theorem UpdateLine_quantity_never_negative:
  "0 \<le> prevQuantity n
   \<and> (CartLineQuantity (Some ln) = Some c \<longrightarrow> (\<forall>(i, k) \<in> set (decrease_lines c). 0 \<le> k))
   \<and> (\<forall>l \<in> set (lines (project s (map (\<lambda>(i, k). UpdateLine i k) us))).
        0 < quantity l \<or> (l \<in> set (lines s) \<and> lineId l \<notin> fst ` set us))
   \<and> ((\<forall>l \<in> set (lines s). 0 \<le> quantity l) \<longrightarrow>
        (\<forall>l \<in> set (lines (project s (map (\<lambda>(i, k). UpdateLine i k) us))). 0 \<le> quantity l))
   \<and> (distinct (map lineId (lines s)) \<and> l \<in> set (lines s) \<longrightarrow>
        lines (project s [UpdateLine (lineId l) 0])
          = filter (\<lambda>x. lineId x \<noteq> lineId l) (lines s)
        \<and> l \<notin> set (lines (project s [UpdateLine (lineId l) 0]))
        \<and> totalQuantity (project s [UpdateLine (lineId l) 0])
          = totalQuantity (project s []) - quantity l)
   \<and> (distinct (map lineId (lines (project s intents))) \<and> l' \<in> set (lines (project s intents)) \<longrightarrow>
        lines (project s (intents @ [UpdateLine (lineId l') 0]))
          = filter (\<lambda>x. lineId x \<noteq> lineId l') (lines (project s intents))
        \<and> l' \<notin> set (lines (project s (intents @ [UpdateLine (lineId l') 0])))
        \<and> totalQuantity (project s (intents @ [UpdateLine (lineId l') 0]))
          = totalQuantity (project s intents) - quantity l')"
proof -
  have 1: "0 \<le> prevQuantity k" for k
    by (simp add: prevQuantity_def)
  have 2: "\<forall>(i, k) \<in> set (decrease_lines c). 0 \<le> k" if "CartLineQuantity (Some ln) = Some c"
    using that 1 by (auto simp add: CartLineQuantity_def split: option.splits)
  have 3: "\<forall>l \<in> set (lines (project s (map (\<lambda>(i, k). UpdateLine i k) us))). 0 \<le> quantity l"
    if "\<forall>l \<in> set (lines s). 0 \<le> quantity l"
    using UpdateLine_sequence_lines [of s us] that by force
  have 4: "lines (project s (q @ [UpdateLine (lineId x) 0]))
          = filter (\<lambda>y. lineId y \<noteq> lineId x) (lines (project s q))"
    for q and x :: CartSnapshotLine
    by (simp add: lines_project_snoc update_line_zero)
  have 5: "totalQuantity (project s (q @ [UpdateLine (lineId x) 0]))
          = totalQuantity (project s q) - quantity x"
    if "distinct (map lineId (lines (project s q)))" "x \<in> set (lines (project s q))" for q x
    using sum_without_line [OF that] by (simp add: totalQuantity_project 4)
  have 6: "lines (project s []) = lines s"
    by (simp add: lines_project)
  from 1 [of n] 2 UpdateLine_sequence_lines [of s us] 3 4 [of "[]" l] 5 [of "[]" l] 6
    4 [of intents l'] 5 [of intents l']
  show ?thesis
    by simp
qed

text \<open>
  The theorem on a cart of two lines, with quantities 2 and 3 and a stored total
  quantity of 7: an update of the first line to \<open>- 4\<close> and of the second to 7
  leaves no negative quantity, and an update of the first line to 0 leaves the second
  line alone and takes the projection's total quantity from 5 to 3, also after an
  earlier update of the second line, from 9 to 7.
\<close>

theorem UpdateLine_quantity_never_negative_witness:
  "0 \<le> prevQuantity 0
   \<and> list_all (\<lambda>(i, k). 0 \<le> k) (decrease_lines
       \<lparr>shown_quantity = 0, decrease_lines = [(''a'', prevQuantity 0)], decrease_disabled = True,
        increase_lines = [(''a'', nextQuantity 0)], increase_disabled = False,
        remove_lineIds = [''a''], remove_disabled = False\<rparr>)
   \<and> list_all (\<lambda>l. 0 \<le> quantity l)
       (lines (project
          \<lparr>lines = [\<lparr>lineId = ''a'', merchandiseId = ''m1'', quantity = 2, unitPrice = ''10'', attributes = []\<rparr>,
                    \<lparr>lineId = ''b'', merchandiseId = ''m2'', quantity = 3, unitPrice = ''20'', attributes = []\<rparr>],
           discountCodes = [], giftCardCodes = [], totalQuantity = 7, cost = (''80'', ''80'')\<rparr>
          [UpdateLine ''a'' (- 4), UpdateLine ''b'' 7]))
   \<and> lines (project
          \<lparr>lines = [\<lparr>lineId = ''a'', merchandiseId = ''m1'', quantity = 2, unitPrice = ''10'', attributes = []\<rparr>,
                    \<lparr>lineId = ''b'', merchandiseId = ''m2'', quantity = 3, unitPrice = ''20'', attributes = []\<rparr>],
           discountCodes = [], giftCardCodes = [], totalQuantity = 7, cost = (''80'', ''80'')\<rparr>
          [UpdateLine ''a'' 0])
       = [\<lparr>lineId = ''b'', merchandiseId = ''m2'', quantity = 3, unitPrice = ''20'', attributes = []\<rparr>]
   \<and> totalQuantity (project
          \<lparr>lines = [\<lparr>lineId = ''a'', merchandiseId = ''m1'', quantity = 2, unitPrice = ''10'', attributes = []\<rparr>,
                    \<lparr>lineId = ''b'', merchandiseId = ''m2'', quantity = 3, unitPrice = ''20'', attributes = []\<rparr>],
           discountCodes = [], giftCardCodes = [], totalQuantity = 7, cost = (''80'', ''80'')\<rparr>
          []) = 5
   \<and> totalQuantity (project
          \<lparr>lines = [\<lparr>lineId = ''a'', merchandiseId = ''m1'', quantity = 2, unitPrice = ''10'', attributes = []\<rparr>,
                    \<lparr>lineId = ''b'', merchandiseId = ''m2'', quantity = 3, unitPrice = ''20'', attributes = []\<rparr>],
           discountCodes = [], giftCardCodes = [], totalQuantity = 7, cost = (''80'', ''80'')\<rparr>
          [UpdateLine ''a'' 0]) = 3
   \<and> totalQuantity (project
          \<lparr>lines = [\<lparr>lineId = ''a'', merchandiseId = ''m1'', quantity = 2, unitPrice = ''10'', attributes = []\<rparr>,
                    \<lparr>lineId = ''b'', merchandiseId = ''m2'', quantity = 3, unitPrice = ''20'', attributes = []\<rparr>],
           discountCodes = [], giftCardCodes = [], totalQuantity = 7, cost = (''80'', ''80'')\<rparr>
          [UpdateLine ''b'' 7]) = 9
   \<and> totalQuantity (project
          \<lparr>lines = [\<lparr>lineId = ''a'', merchandiseId = ''m1'', quantity = 2, unitPrice = ''10'', attributes = []\<rparr>,
                    \<lparr>lineId = ''b'', merchandiseId = ''m2'', quantity = 3, unitPrice = ''20'', attributes = []\<rparr>],
           discountCodes = [], giftCardCodes = [], totalQuantity = 7, cost = (''80'', ''80'')\<rparr>
          [UpdateLine ''b'' 7, UpdateLine ''a'' 0]) = 7"
proof -
  let ?a = "\<lparr>lineId = ''a'', merchandiseId = ''m1'', quantity = 2, unitPrice = ''10'', attributes = []\<rparr>"
  let ?b = "\<lparr>lineId = ''b'', merchandiseId = ''m2'', quantity = 3, unitPrice = ''20'', attributes = []\<rparr>"
  let ?s = "\<lparr>lines = [?a, ?b], discountCodes = [], giftCardCodes = [], totalQuantity = 7,
              cost = (''80'', ''80'')\<rparr>"
  let ?ln = "\<lparr>line_id = ''a'', line_quantity = Some 0, line_isOptimistic = False\<rparr>"
  let ?c = "\<lparr>shown_quantity = 0, decrease_lines = [(''a'', prevQuantity 0)], decrease_disabled = True,
        increase_lines = [(''a'', nextQuantity 0)], increase_disabled = False,
        remove_lineIds = [''a''], remove_disabled = False\<rparr>"
  have p0: "lines (project ?s []) = [?a, ?b]" and t0: "totalQuantity (project ?s []) = 5"
    by (simp_all add: lines_project totalQuantity_project)
  have p1: "lines (project ?s [UpdateLine ''b'' 7]) = [?a, ?b\<lparr>quantity := 7\<rparr>]"
    by (simp add: lines_project update_line_def)
  then have t1: "totalQuantity (project ?s [UpdateLine ''b'' 7]) = 9"
    by (simp add: totalQuantity_project)
  have h1: "CartLineQuantity (Some ?ln) = Some ?c"
    by (simp add: CartLineQuantity_def)
  have h2: "\<forall>l \<in> set (lines ?s). 0 \<le> quantity l"
    by simp
  have h3: "distinct (map lineId (lines ?s)) \<and> ?a \<in> set (lines ?s)"
    by simp
  have h4: "distinct (map lineId (lines (project ?s [UpdateLine ''b'' 7])))
      \<and> ?a \<in> set (lines (project ?s [UpdateLine ''b'' 7]))"
    by (simp add: p1)
  note t = UpdateLine_quantity_never_negative
    [of 0 ?ln ?c ?s "[(''a'', - 4), (''b'', 7)]" ?a "[UpdateLine ''b'' 7]" ?a]
  from t h1 have "\<forall>(i, k) \<in> set (decrease_lines ?c). 0 \<le> k"
    by blast
  moreover from t h2
  have "\<forall>l \<in> set (lines (project ?s (map (\<lambda>(i, k). UpdateLine i k) [(''a'', - 4), (''b'', 7)]))).
          0 \<le> quantity l"
    by blast
  moreover from t h3
  have "lines (project ?s [UpdateLine (lineId ?a) 0]) = filter (\<lambda>x. lineId x \<noteq> lineId ?a) (lines ?s)"
    and "totalQuantity (project ?s [UpdateLine (lineId ?a) 0])
          = totalQuantity (project ?s []) - quantity ?a"
    by blast+
  moreover from t h4
  have "totalQuantity (project ?s ([UpdateLine ''b'' 7] @ [UpdateLine (lineId ?a) 0]))
          = totalQuantity (project ?s [UpdateLine ''b'' 7]) - quantity ?a"
    by blast
  moreover from t have "0 \<le> prevQuantity 0"
    by blast
  ultimately show ?thesis
    using t0 t1 by (simp add: list_all_iff)
qed

end
